theory Spec2Isabelle
  imports Main
begin

section \<open>Python values, dictionaries and the object store\<close>

text \<open>
  Header values are Python objects: the documented type is \<open>str\<close>, and \<open>None\<close> is the
  value \<open>dict.get\<close> returns for a missing key (the absent marker).
\<close>

datatype pyval = PNone | PStr string | PInt int

type_synonym pydict = "string \<rightharpoonup> pyval"

text \<open>
  A raised exception: the name of its class, whether that class derives from
  \<open>Exception\<close> (\<open>KeyboardInterrupt\<close>, \<open>SystemExit\<close> and \<open>GeneratorExit\<close> derive from
  \<open>BaseException\<close> only), and its \<open>str\<close>.
\<close>

datatype py_exn = PyExn (exn_class: string) (is_Exception: bool) (exn_str: string)

text \<open>\<open>d.get(key)\<close>: the value at the key, \<open>None\<close> when the key is missing.\<close>

definition dict_get :: "pydict \<Rightarrow> string \<Rightarrow> pyval" where
  "dict_get d key = (case d key of None \<Rightarrow> PNone | Some v \<Rightarrow> v)"

text \<open>\<open>d[key] = value\<close>.\<close>

definition dict_setitem :: "pydict \<Rightarrow> string \<Rightarrow> pyval \<Rightarrow> pydict" where
  "dict_setitem d key v = d(key \<mapsto> v)"

text \<open>
  \<open>d.pop(key[, default])\<close>: removes the key and returns its value; for a missing key it
  returns the default when one is given and raises \<open>KeyError\<close> otherwise.
\<close>

definition dict_pop :: "pydict \<Rightarrow> string \<Rightarrow> pyval option \<Rightarrow> py_exn + (pyval \<times> pydict)" where
  "dict_pop d key dflt =
     (case d key of
        Some v \<Rightarrow> Inr (v, d(key := None))
      | None \<Rightarrow> (case dflt of
                   Some v \<Rightarrow> Inr (v, d)
                 | None \<Rightarrow> Inl (PyExn ''KeyError'' True key)))"

text \<open>
  Dictionaries are objects with identity: two names can refer to the same dictionary, and
  a mutation through one is seen through the other. The store maps addresses to
  dictionary contents; addresses below \<open>next_addr\<close> are allocated.
\<close>

type_synonym addr = nat

record store =
  cells :: "addr \<Rightarrow> pydict"
  next_addr :: addr

text \<open>The dictionary display \<open>{}\<close> creates a new empty dictionary object.\<close>

definition new_dict :: "store \<Rightarrow> addr \<times> store" where
  "new_dict st =
     (next_addr st,
      st\<lparr>cells := (cells st)(next_addr st := Map.empty), next_addr := Suc (next_addr st)\<rparr>)"

text \<open>
  The default value \<open>headers={}\<close> of \<open>__init__\<close> is evaluated once, when the function is
  defined: it is one dictionary object, at a fixed address of the store the module starts
  with.
\<close>

definition default_headers :: addr where
  "default_headers = 0"

definition module_store :: store where
  "module_store = \<lparr>cells = (\<lambda>_. Map.empty), next_addr = Suc 0\<rparr>"

section \<open>The connection manager\<close>

datatype verify_val = VBool bool | VPath string

text \<open>
  The \<open>requests.Session\<close> object: the two attributes the constructor touches, and the
  state the HTTP library keeps in it (connections, cookies), which the wrapper never looks
  at.
\<close>

record 't session =
  auth_identity :: bool
  proxies :: "string \<rightharpoonup> string"
  transport_state :: 't

definition new_session :: "'t \<Rightarrow> 't session" where
  "new_session t0 = \<lparr>auth_identity = False, proxies = Map.empty, transport_state = t0\<rparr>"

text \<open>\<open>d.update(other)\<close> on the proxies of the session.\<close>

fun dict_update :: "(string \<rightharpoonup> string) \<Rightarrow> (string \<times> string) list \<Rightarrow> (string \<rightharpoonup> string)" where
  "dict_update d [] = d"
| "dict_update d ((k, v) # kvs) = dict_update (d(k \<mapsto> v)) kvs"

record 't connection_manager =
  base_url :: string
  headers :: addr
  timeout :: int
  verify :: verify_val
  s :: "'t session"

text \<open>
  \<open>__init__(self, base_url, headers={}, timeout=60, verify=True, proxies=None)\<close>. An
  omitted argument is \<open>None\<close> here and takes the default of the signature. \<open>if proxies\<close>
  is false for \<open>None\<close> and for an empty dictionary.
\<close>

definition init ::
  "'t \<Rightarrow> string \<Rightarrow> addr option \<Rightarrow> int option \<Rightarrow> verify_val option \<Rightarrow>
   (string \<times> string) list option \<Rightarrow> 't connection_manager" where
  "init t0 base_url_arg headers_arg timeout_arg verify_arg proxies_arg =
     (let s0 = (new_session t0)\<lparr>auth_identity := True\<rparr>;
          s1 = (case proxies_arg of
                  None \<Rightarrow> s0
                | Some [] \<Rightarrow> s0
                | Some ps \<Rightarrow> s0\<lparr>proxies := dict_update (proxies s0) ps\<rparr>)
      in \<lparr>base_url = base_url_arg,
          headers = (case headers_arg of None \<Rightarrow> default_headers | Some a \<Rightarrow> a),
          timeout = (case timeout_arg of None \<Rightarrow> 60 | Some t \<Rightarrow> t),
          verify = (case verify_arg of None \<Rightarrow> VBool True | Some v \<Rightarrow> v),
          s = s1\<rparr>)"

subsection \<open>Property setters\<close>

definition set_base_url :: "'t connection_manager \<Rightarrow> string \<Rightarrow> 't connection_manager" where
  "set_base_url cm v = cm\<lparr>base_url := v\<rparr>"

definition set_timeout :: "'t connection_manager \<Rightarrow> int \<Rightarrow> 't connection_manager" where
  "set_timeout cm v = cm\<lparr>timeout := v\<rparr>"

definition set_verify :: "'t connection_manager \<Rightarrow> verify_val \<Rightarrow> 't connection_manager" where
  "set_verify cm v = cm\<lparr>verify := v\<rparr>"

definition set_headers :: "'t connection_manager \<Rightarrow> addr \<Rightarrow> 't connection_manager" where
  "set_headers cm v = cm\<lparr>headers := v\<rparr>"

subsection \<open>Header operations\<close>

definition param_headers :: "'t connection_manager \<Rightarrow> store \<Rightarrow> string \<Rightarrow> pyval" where
  "param_headers cm st key = dict_get (cells st (headers cm)) key"

definition clean_headers ::
  "'t connection_manager \<Rightarrow> store \<Rightarrow> 't connection_manager \<times> store" where
  "clean_headers cm st = (case new_dict st of (a, st') \<Rightarrow> (set_headers cm a, st'))"

definition exist_param_headers :: "'t connection_manager \<Rightarrow> store \<Rightarrow> string \<Rightarrow> bool" where
  "exist_param_headers cm st key = (param_headers cm st key \<noteq> PNone)"

definition add_param_headers ::
  "'t connection_manager \<Rightarrow> store \<Rightarrow> string \<Rightarrow> pyval \<Rightarrow> 't connection_manager \<times> store" where
  "add_param_headers cm st key v =
     (cm, st\<lparr>cells := (cells st)(headers cm := dict_setitem (cells st (headers cm)) key v)\<rparr>)"

definition del_param_headers ::
  "'t connection_manager \<Rightarrow> store \<Rightarrow> string \<Rightarrow> py_exn + ('t connection_manager \<times> store)" where
  "del_param_headers cm st key =
     (case dict_pop (cells st (headers cm)) key (Some PNone) of
        Inl e \<Rightarrow> Inl e
      | Inr (_, d') \<Rightarrow> Inr (cm, st\<lparr>cells := (cells st)(headers cm := d')\<rparr>))"

section \<open>Joining a path to the base URL\<close>

text \<open>
  Modelled from the spec: \<open>urljoin\<close> is imported from the standard library
  (\<open>urllib.parse\<close>) and is not part of the sources. The definitions of this section follow
  the spec's "standard URL-join semantics", that is the reference resolution of RFC 3986
  in the non-strict form the library implements: a URL is split into scheme, authority
  (\<open>netloc\<close>), path, query and fragment, the reference is merged with the base, dot
  segments are removed and the parts are put together again. Left out: the stripping of
  leading whitespace and control characters, the validation of bracketed hosts, and the
  separate treatment of \<open>;\<close> parameters of the last path segment.
\<close>

record split_result =
  scheme :: string
  netloc :: string
  path :: string
  query :: string
  fragment :: string

definition scheme_chars :: string where
  "scheme_chars = ''abcdefghijklmnopqrstuvwxyzABCDEFGHIJKLMNOPQRSTUVWXYZ0123456789+-.''"

definition ascii_letters :: string where
  "ascii_letters = ''abcdefghijklmnopqrstuvwxyzABCDEFGHIJKLMNOPQRSTUVWXYZ''"

definition uses_relative :: "string list" where
  "uses_relative = ['''', ''ftp'', ''http'', ''gopher'', ''nntp'', ''imap'', ''wais'', ''file'',
     ''https'', ''shttp'', ''mms'', ''prospero'', ''rtsp'', ''rtsps'', ''rtspu'', ''sftp'',
     ''svn'', ''svn+ssh'', ''ws'', ''wss'']"

definition uses_netloc :: "string list" where
  "uses_netloc = ['''', ''ftp'', ''http'', ''gopher'', ''nntp'', ''telnet'', ''imap'', ''wais'',
     ''file'', ''mms'', ''https'', ''shttp'', ''snews'', ''prospero'', ''rtsp'', ''rtsps'',
     ''rtspu'', ''rsync'', ''svn'', ''svn+ssh'', ''sftp'', ''nfs'', ''git'', ''git+ssh'',
     ''ws'', ''wss'', ''itms-services'']"

definition lower_char :: "char \<Rightarrow> char" where
  "lower_char c =
     (case map_of (zip ''ABCDEFGHIJKLMNOPQRSTUVWXYZ'' ''abcdefghijklmnopqrstuvwxyz'') c of
        Some l \<Rightarrow> l
      | None \<Rightarrow> c)"

fun split_on :: "char \<Rightarrow> string \<Rightarrow> string list" where
  "split_on c [] = [[]]"
| "split_on c (x # xs) =
     (if x = c then [] # split_on c xs
      else (case split_on c xs of w # ws \<Rightarrow> (x # w) # ws | [] \<Rightarrow> [[x]]))"

fun join_with :: "string \<Rightarrow> string list \<Rightarrow> string" where
  "join_with sep [] = []"
| "join_with sep [x] = x"
| "join_with sep (x # y # ys) = x @ sep @ join_with sep (y # ys)"

definition split_scheme :: "string \<Rightarrow> string \<Rightarrow> string \<times> string" where
  "split_scheme url dflt =
     (let pre = takeWhile (\<lambda>c. c \<noteq> CHR '':'') url in
      if pre \<noteq> [] \<and> length pre < length url \<and> hd url \<in> set ascii_letters
           \<and> list_all (\<lambda>c. c \<in> set scheme_chars) pre
      then (map lower_char pre, drop (Suc (length pre)) url)
      else (dflt, url))"

definition urlsplit :: "string \<Rightarrow> string \<Rightarrow> split_result" where
  "urlsplit url0 dflt =
     (case split_scheme url0 dflt of (sch, url1) \<Rightarrow>
        let (nl, url2) =
              (if take 2 url1 = ''//''
               then (takeWhile (\<lambda>c. c \<notin> set ''/?#'') (drop 2 url1),
                     dropWhile (\<lambda>c. c \<notin> set ''/?#'') (drop 2 url1))
               else ([], url1));
            url3 = takeWhile (\<lambda>c. c \<noteq> CHR ''#'') url2;
            frag = drop (Suc (length url3)) url2;
            url4 = takeWhile (\<lambda>c. c \<noteq> CHR ''?'') url3;
            qry = drop (Suc (length url4)) url3
        in \<lparr>scheme = sch, netloc = nl, path = url4, query = qry, fragment = frag\<rparr>)"

definition urlunsplit :: "split_result \<Rightarrow> string" where
  "urlunsplit p =
     (let url0 = path p;
          url1 = (if netloc p \<noteq> [] \<or>
                     (scheme p \<noteq> [] \<and> scheme p \<in> set uses_netloc \<and> take 2 url0 \<noteq> ''//'')
                  then ''//'' @ netloc p @
                         (if url0 \<noteq> [] \<and> take 1 url0 \<noteq> ''/'' then ''/'' @ url0 else url0)
                  else url0);
          url2 = (if scheme p \<noteq> [] then scheme p @ '':'' @ url1 else url1);
          url3 = (if query p \<noteq> [] then url2 @ ''?'' @ query p else url2)
      in if fragment p \<noteq> [] then url3 @ ''#'' @ fragment p else url3)"

fun resolve_segments :: "string list \<Rightarrow> string list \<Rightarrow> string list" where
  "resolve_segments resolved [] = resolved"
| "resolve_segments resolved (seg # segs) =
     (if seg = ''..'' then resolve_segments (butlast resolved) segs
      else if seg = ''.'' then resolve_segments resolved segs
      else resolve_segments (resolved @ [seg]) segs)"

definition filter_middle :: "string list \<Rightarrow> string list" where
  "filter_middle segs =
     (if length segs < 2 then segs
      else hd segs # filter (\<lambda>x. x \<noteq> []) (butlast (tl segs)) @ [last segs])"

definition urljoin :: "string \<Rightarrow> string \<Rightarrow> string" where
  "urljoin base url =
     (if base = [] then url
      else if url = [] then base
      else
        let b = urlsplit base [];
            u = urlsplit url (scheme b)
        in if scheme u \<noteq> scheme b then url
           else if scheme u \<notin> set uses_relative then url
           else if scheme u \<in> set uses_netloc \<and> netloc u \<noteq> [] then urlunsplit u
           else
             let nl = (if scheme u \<in> set uses_netloc then netloc b else netloc u) in
             if path u = []
             then urlunsplit (u\<lparr>netloc := nl, path := path b,
                                query := (if query u = [] then query b else query u)\<rparr>)
             else
               let parts0 = split_on CHR ''/'' (path b);
                   base_parts = (if last parts0 \<noteq> [] then butlast parts0 else parts0);
                   segments = (if take 1 (path u) = ''/'' then split_on CHR ''/'' (path u)
                               else filter_middle (base_parts @ split_on CHR ''/'' (path u)));
                   resolved0 = resolve_segments [] segments;
                   resolved_path = (if last segments = ''.'' \<or> last segments = ''..''
                                    then resolved0 @ [[]] else resolved0);
                   joined = join_with ''/'' resolved_path
               in urlunsplit (u\<lparr>netloc := nl,
                                 path := (if joined = [] then ''/'' else joined)\<rparr>))"

section \<open>Requests\<close>

text \<open>
  The request the wrapper hands to the session: the keyword arguments of
  \<open>self._s.get\<close> and its siblings. Query parameters and form data are dictionaries given
  by the caller; \<open>data\<close> may be \<open>None\<close>, and \<open>raw_get\<close> passes none at all.
\<close>

datatype pydata = DNone | DDict "(string \<times> pyval) list"

record request =
  req_method :: string
  req_url :: string
  req_params :: "(string \<times> pyval) list"
  req_data :: "pydata option"
  req_headers :: pydict
  req_timeout :: int
  req_verify :: verify_val

record response =
  status_code :: int
  body :: string

text \<open>
  The HTTP library is outside the sources: a transport is any function that, given the
  session and a request, returns a response or raises an exception (of any class, also
  one outside \<open>Exception\<close>, such as the \<open>KeyboardInterrupt\<close> of a user who interrupts
  the blocking call), and leaves the session in a new state.
\<close>

type_synonym 't transport = "'t session \<Rightarrow> request \<Rightarrow> (py_exn + response) \<times> 't session"

text \<open>
  \<open>try: return <call> except Exception as e: raise Exception("Can't connect to server (%s)" % e)\<close>,
  the frame each of the four methods puts around its call of the session. The handler
  catches instances of \<open>Exception\<close>; any other exception leaves the method as it was
  raised.
\<close>

definition try_call ::
  "'t connection_manager \<Rightarrow> (py_exn + response) \<times> 't session \<Rightarrow>
   (py_exn + response) \<times> 't connection_manager" where
  "try_call cm out =
     (case out of
        (Inl e, s') \<Rightarrow>
          (if is_Exception e
           then Inl (PyExn ''Exception'' True
                       (''Can't connect to server ('' @ exn_str e @ '')''))
           else Inl e,
           cm\<lparr>s := s'\<rparr>)
      | (Inr r, s') \<Rightarrow> (Inr r, cm\<lparr>s := s'\<rparr>))"

definition raw_get ::
  "'t transport \<Rightarrow> 't connection_manager \<Rightarrow> store \<Rightarrow> string \<Rightarrow> (string \<times> pyval) list \<Rightarrow>
   (py_exn + response) \<times> 't connection_manager" where
  "raw_get tr cm st path_arg kwargs =
     try_call cm (tr (s cm)
       \<lparr>req_method = ''GET'', req_url = urljoin (base_url cm) path_arg, req_params = kwargs,
        req_data = None, req_headers = cells st (headers cm), req_timeout = timeout cm,
        req_verify = verify cm\<rparr>)"

definition raw_post ::
  "'t transport \<Rightarrow> 't connection_manager \<Rightarrow> store \<Rightarrow> string \<Rightarrow> pydata \<Rightarrow>
   (string \<times> pyval) list \<Rightarrow> (py_exn + response) \<times> 't connection_manager" where
  "raw_post tr cm st path_arg data kwargs =
     try_call cm (tr (s cm)
       \<lparr>req_method = ''POST'', req_url = urljoin (base_url cm) path_arg, req_params = kwargs,
        req_data = Some data, req_headers = cells st (headers cm), req_timeout = timeout cm,
        req_verify = verify cm\<rparr>)"

definition raw_put ::
  "'t transport \<Rightarrow> 't connection_manager \<Rightarrow> store \<Rightarrow> string \<Rightarrow> pydata \<Rightarrow>
   (string \<times> pyval) list \<Rightarrow> (py_exn + response) \<times> 't connection_manager" where
  "raw_put tr cm st path_arg data kwargs =
     try_call cm (tr (s cm)
       \<lparr>req_method = ''PUT'', req_url = urljoin (base_url cm) path_arg, req_params = kwargs,
        req_data = Some data, req_headers = cells st (headers cm), req_timeout = timeout cm,
        req_verify = verify cm\<rparr>)"

text \<open>\<open>data or dict()\<close>: \<open>None\<close> and the empty dictionary are false.\<close>

definition data_or_dict :: "pydata \<Rightarrow> pydata" where
  "data_or_dict data =
     (case data of DNone \<Rightarrow> DDict [] | DDict [] \<Rightarrow> DDict [] | DDict kvs \<Rightarrow> DDict kvs)"

definition raw_delete ::
  "'t transport \<Rightarrow> 't connection_manager \<Rightarrow> store \<Rightarrow> string \<Rightarrow> pydata \<Rightarrow>
   (string \<times> pyval) list \<Rightarrow> (py_exn + response) \<times> 't connection_manager" where
  "raw_delete tr cm st path_arg data kwargs =
     try_call cm (tr (s cm)
       \<lparr>req_method = ''DELETE'', req_url = urljoin (base_url cm) path_arg,
        req_params = kwargs, req_data = Some (data_or_dict data),
        req_headers = cells st (headers cm), req_timeout = timeout cm,
        req_verify = verify cm\<rparr>)"

section \<open>Sequences of calls on one connection manager\<close>

datatype op =
    SetBaseUrl string
  | SetTimeout int
  | SetVerify verify_val
  | SetHeaders addr
  | CleanHeaders
  | AddParamHeaders string pyval
  | DelParamHeaders string
  | RawGet string "(string \<times> pyval) list"
  | RawPost string pydata "(string \<times> pyval) list"
  | RawPut string pydata "(string \<times> pyval) list"
  | RawDelete string pydata "(string \<times> pyval) list"

text \<open>
  One call: the connection manager and the store after it. The value a call returns, or
  the exception it raises, is dropped here; a call that raises leaves what it had changed
  before.
\<close>

fun exec ::
  "'t transport \<Rightarrow> op \<Rightarrow> 't connection_manager \<times> store \<Rightarrow> 't connection_manager \<times> store" where
  "exec tr (SetBaseUrl v) (cm, st) = (set_base_url cm v, st)"
| "exec tr (SetTimeout v) (cm, st) = (set_timeout cm v, st)"
| "exec tr (SetVerify v) (cm, st) = (set_verify cm v, st)"
| "exec tr (SetHeaders a) (cm, st) = (set_headers cm a, st)"
| "exec tr CleanHeaders (cm, st) = clean_headers cm st"
| "exec tr (AddParamHeaders k v) (cm, st) = add_param_headers cm st k v"
| "exec tr (DelParamHeaders k) (cm, st) =
     (case del_param_headers cm st k of Inl e \<Rightarrow> (cm, st) | Inr r \<Rightarrow> r)"
| "exec tr (RawGet p kw) (cm, st) = (snd (raw_get tr cm st p kw), st)"
| "exec tr (RawPost p d kw) (cm, st) = (snd (raw_post tr cm st p d kw), st)"
| "exec tr (RawPut p d kw) (cm, st) = (snd (raw_put tr cm st p d kw), st)"
| "exec tr (RawDelete p d kw) (cm, st) = (snd (raw_delete tr cm st p d kw), st)"

fun run ::
  "'t transport \<Rightarrow> op list \<Rightarrow> 't connection_manager \<times> store \<Rightarrow> 't connection_manager \<times> store" where
  "run tr [] cs = cs"
| "run tr (c # cs') cs = run tr cs' (exec tr c cs)"

text \<open>
  The calls that overwrite or remove a header key \<open>k\<close>: \<open>add_param_headers\<close> and
  \<open>del_param_headers\<close> on \<open>k\<close>, and \<open>clean_headers\<close>.
\<close>

fun overwrites_or_removes :: "string \<Rightarrow> op \<Rightarrow> bool" where
  "overwrites_or_removes k (AddParamHeaders k' v) = (k' = k)"
| "overwrites_or_removes k (DelParamHeaders k') = (k' = k)"
| "overwrites_or_removes k CleanHeaders = True"
| "overwrites_or_removes k _ = False"

text \<open>The \<open>headers\<close> setter puts another dictionary in the place of the current one.\<close>

fun replaces_mapping :: "op \<Rightarrow> bool" where
  "replaces_mapping (SetHeaders a) = True"
| "replaces_mapping _ = False"

text \<open>
  A sequence of calls in which every dictionary handed to the \<open>headers\<close> setter exists at
  the time of the call.
\<close>

fun setter_args_allocated ::
  "'t transport \<Rightarrow> op list \<Rightarrow> 't connection_manager \<times> store \<Rightarrow> bool" where
  "setter_args_allocated tr [] cs = True"
| "setter_args_allocated tr (SetHeaders a # cs') cs =
     (a < next_addr (snd cs) \<and> setter_args_allocated tr cs' (exec tr (SetHeaders a) cs))"
| "setter_args_allocated tr (c # cs') cs = setter_args_allocated tr cs' (exec tr c cs)"

text \<open>
  A transport for closed examples: it records each request in the session and answers
  with an empty response of status 200, or, for the host \<open>unreachable\<close>, raises.
\<close>

definition test_transport :: "request list transport" where
  "test_transport sess r =
     (if netloc (urlsplit (req_url r) []) = ''unreachable''
      then Inl (PyExn ''ConnectionError'' True ''Name or service not known'')
      else Inr \<lparr>status_code = 200, body = []\<rparr>,
      sess\<lparr>transport_state := transport_state sess @ [r]\<rparr>)"

text \<open>A transport whose call is interrupted from the keyboard.\<close>

definition interrupted_transport :: "request list transport" where
  "interrupted_transport sess r =
     (Inl (PyExn ''KeyboardInterrupt'' False []),
      sess\<lparr>transport_state := transport_state sess @ [r]\<rparr>)"

section \<open>Basic facts about the header operations\<close>

lemma clean_headers_simps:
  "headers (fst (clean_headers cm st)) = next_addr st"
  "base_url (fst (clean_headers cm st)) = base_url cm"
  "timeout (fst (clean_headers cm st)) = timeout cm"
  "verify (fst (clean_headers cm st)) = verify cm"
  "s (fst (clean_headers cm st)) = s cm"
  "next_addr (snd (clean_headers cm st)) = Suc (next_addr st)"
  "cells (snd (clean_headers cm st)) = (cells st)(next_addr st := Map.empty)"
  by (simp_all add: clean_headers_def new_dict_def set_headers_def)

lemma add_param_headers_simps:
  "fst (add_param_headers cm st k v) = cm"
  "next_addr (snd (add_param_headers cm st k v)) = next_addr st"
  "cells (snd (add_param_headers cm st k v)) =
     (cells st)(headers cm := (cells st (headers cm))(k \<mapsto> v))"
  by (simp_all add: add_param_headers_def dict_setitem_def)

lemma del_param_headers_eq:
  "del_param_headers cm st k =
     Inr (cm, st\<lparr>cells := (cells st)(headers cm := (cells st (headers cm))(k := None))\<rparr>)"
  by (cases "cells st (headers cm) k")
     (simp_all add: del_param_headers_def dict_pop_def fun_upd_idem)

lemma init_simps:
  "base_url (init t0 u h t v p) = u"
  "headers (init t0 u h t v p) = (case h of None \<Rightarrow> default_headers | Some a \<Rightarrow> a)"
  "timeout (init t0 u h t v p) = (case t of None \<Rightarrow> 60 | Some x \<Rightarrow> x)"
  "verify (init t0 u h t v p) = (case v of None \<Rightarrow> VBool True | Some x \<Rightarrow> x)"
  by (simp_all add: init_def Let_def)

section \<open>Header lookups\<close>

text \<open>
  Claim C8. For every key and every state of the headers, \<open>exist_param_headers(k)\<close> is
  true exactly when \<open>param_headers(k)\<close> is not \<open>None\<close>.
\<close>

theorem exist_iff_param_not_none:
  "exist_param_headers cm st k \<longleftrightarrow> param_headers cm st k \<noteq> PNone"
  by (simp add: exist_param_headers_def)

text \<open>
  Claim C7. After \<open>clean_headers()\<close> the header mapping of the connection manager is
  empty: \<open>exist_param_headers(k)\<close> is false and \<open>param_headers(k)\<close> is \<open>None\<close> for every
  key, also for a key that \<open>add_param_headers\<close> had just added.
\<close>

theorem clean_headers_empties:
  "\<not> exist_param_headers (fst (clean_headers cm st)) (snd (clean_headers cm st)) k
   \<and> param_headers (fst (clean_headers cm st)) (snd (clean_headers cm st)) k = PNone
   \<and> cells (snd (clean_headers cm st)) (headers (fst (clean_headers cm st))) = Map.empty
   \<and> \<not> exist_param_headers
         (fst (clean_headers (fst (add_param_headers cm st k v)) (snd (add_param_headers cm st k v))))
         (snd (clean_headers (fst (add_param_headers cm st k v)) (snd (add_param_headers cm st k v))))
         k"
  by (simp add: exist_param_headers_def param_headers_def dict_get_def clean_headers_simps
        add_param_headers_simps)


text \<open>
  Claim C6. For every key and every state of the headers, \<open>del_param_headers(k)\<close> returns
  without raising (also when \<open>k\<close> is not a key), \<open>param_headers(k)\<close> is \<open>None\<close>
  afterwards, and the values of all other keys are what they were.
\<close>

theorem del_param_headers_never_raises:
  "\<exists>cm' st'. del_param_headers cm st k = Inr (cm', st')
      \<and> param_headers cm' st' k = PNone
      \<and> \<not> exist_param_headers cm' st' k
      \<and> (\<forall>k'. k' \<noteq> k \<longrightarrow> param_headers cm' st' k' = param_headers cm st k'
                         \<and> cells st' (headers cm') k' = cells st (headers cm) k')"
  by (simp add: del_param_headers_eq exist_param_headers_def param_headers_def dict_get_def)

theorem del_param_headers_never_raises_witness:
  "\<exists>cm' st'.
     del_param_headers (init (0::nat) ''http://host/'' None None None None)
       (snd (add_param_headers (init (0::nat) ''http://host/'' None None None None)
               module_store ''B'' (PStr ''2''))) ''A'' = Inr (cm', st')
     \<and> param_headers cm' st' ''A'' = PNone
     \<and> param_headers cm' st' ''B'' = PStr ''2''"
proof -
  let ?cm = "init (0::nat) ''http://host/'' None None None None"
  let ?st = "snd (add_param_headers ?cm module_store ''B'' (PStr ''2''))"
  from del_param_headers_never_raises [of ?cm ?st "''A''"]
  obtain cm' st' where d: "del_param_headers ?cm ?st ''A'' = Inr (cm', st')"
    and a: "param_headers cm' st' ''A'' = PNone"
    and o: "\<forall>k'. k' \<noteq> ''A'' \<longrightarrow> param_headers cm' st' k' = param_headers ?cm ?st k'"
    by blast
  have "param_headers ?cm ?st ''B'' = PStr ''2''"
    by (simp add: param_headers_def dict_get_def add_param_headers_simps)
  with o have "param_headers cm' st' ''B'' = PStr ''2''"
    by simp
  with d a show ?thesis
    by blast
qed

section \<open>What a call leaves unchanged\<close>

lemma try_call_simps:
  "base_url (snd (try_call cm out)) = base_url cm"
  "headers (snd (try_call cm out)) = headers cm"
  "timeout (snd (try_call cm out)) = timeout cm"
  "verify (snd (try_call cm out)) = verify cm"
  "s (snd (try_call cm out)) = snd out"
  by (simp_all add: try_call_def split: prod.splits sum.splits)

text \<open>
  Claim C9. Each setter (\<open>base_url\<close>, \<open>timeout\<close>, \<open>verify\<close>, \<open>headers\<close>) changes its own
  field and no other field of the configuration, and no dictionary of the store; each of
  \<open>raw_get\<close>, \<open>raw_post\<close>, \<open>raw_put\<close> and \<open>raw_delete\<close> leaves \<open>base_url\<close>, \<open>headers\<close>,
  \<open>timeout\<close>, \<open>verify\<close> and the store as they were, whatever the transport answers (a
  response or an exception).
\<close>

theorem configuration_frame:
  "base_url (set_base_url cm u) = u \<and> headers (set_base_url cm u) = headers cm
     \<and> timeout (set_base_url cm u) = timeout cm \<and> verify (set_base_url cm u) = verify cm
     \<and> s (set_base_url cm u) = s cm
   \<and> timeout (set_timeout cm t) = t \<and> base_url (set_timeout cm t) = base_url cm
     \<and> headers (set_timeout cm t) = headers cm \<and> verify (set_timeout cm t) = verify cm
     \<and> s (set_timeout cm t) = s cm
   \<and> verify (set_verify cm b) = b \<and> base_url (set_verify cm b) = base_url cm
     \<and> headers (set_verify cm b) = headers cm \<and> timeout (set_verify cm b) = timeout cm
     \<and> s (set_verify cm b) = s cm
   \<and> headers (set_headers cm a) = a \<and> base_url (set_headers cm a) = base_url cm
     \<and> timeout (set_headers cm a) = timeout cm \<and> verify (set_headers cm a) = verify cm
     \<and> s (set_headers cm a) = s cm
   \<and> snd (exec tr (SetBaseUrl u) (cm, st)) = st \<and> snd (exec tr (SetTimeout t) (cm, st)) = st
     \<and> snd (exec tr (SetVerify b) (cm, st)) = st \<and> snd (exec tr (SetHeaders a) (cm, st)) = st
   \<and> base_url (snd (raw_get tr cm st p kw)) = base_url cm
     \<and> headers (snd (raw_get tr cm st p kw)) = headers cm
     \<and> timeout (snd (raw_get tr cm st p kw)) = timeout cm
     \<and> verify (snd (raw_get tr cm st p kw)) = verify cm
     \<and> snd (exec tr (RawGet p kw) (cm, st)) = st
   \<and> base_url (snd (raw_post tr cm st p d kw)) = base_url cm
     \<and> headers (snd (raw_post tr cm st p d kw)) = headers cm
     \<and> timeout (snd (raw_post tr cm st p d kw)) = timeout cm
     \<and> verify (snd (raw_post tr cm st p d kw)) = verify cm
     \<and> snd (exec tr (RawPost p d kw) (cm, st)) = st
   \<and> base_url (snd (raw_put tr cm st p d kw)) = base_url cm
     \<and> headers (snd (raw_put tr cm st p d kw)) = headers cm
     \<and> timeout (snd (raw_put tr cm st p d kw)) = timeout cm
     \<and> verify (snd (raw_put tr cm st p d kw)) = verify cm
     \<and> snd (exec tr (RawPut p d kw) (cm, st)) = st
   \<and> base_url (snd (raw_delete tr cm st p d kw)) = base_url cm
     \<and> headers (snd (raw_delete tr cm st p d kw)) = headers cm
     \<and> timeout (snd (raw_delete tr cm st p d kw)) = timeout cm
     \<and> verify (snd (raw_delete tr cm st p d kw)) = verify cm
     \<and> snd (exec tr (RawDelete p d kw) (cm, st)) = st"
  by (simp add: set_base_url_def set_timeout_def set_verify_def set_headers_def
        raw_get_def raw_post_def raw_put_def raw_delete_def try_call_simps)

section \<open>A header that was added\<close>

lemma exec_keeps_key:
  assumes "\<not> overwrites_or_removes k c" and "\<not> replaces_mapping c"
  shows "headers (fst (exec tr c (cm, st))) = headers cm
         \<and> cells (snd (exec tr c (cm, st))) (headers cm) k = cells st (headers cm) k"
  using assms
  by (cases c)
     (simp_all add: set_base_url_def set_timeout_def set_verify_def add_param_headers_simps
        del_param_headers_eq raw_get_def raw_post_def raw_put_def raw_delete_def try_call_simps)

lemma run_keeps_key:
  assumes "\<forall>c \<in> set ops. \<not> overwrites_or_removes k c \<and> \<not> replaces_mapping c"
  shows "headers (fst (run tr ops cs)) = headers (fst cs)
         \<and> cells (snd (run tr ops cs)) (headers (fst cs)) k = cells (snd cs) (headers (fst cs)) k"
  using assms
proof (induction ops arbitrary: cs)
  case Nil
  show ?case by simp
next
  case (Cons c ops)
  obtain cm st where cs: "cs = (cm, st)" by (cases cs)
  from Cons.prems have c: "\<not> overwrites_or_removes k c" "\<not> replaces_mapping c"
    and rest: "\<forall>c \<in> set ops. \<not> overwrites_or_removes k c \<and> \<not> replaces_mapping c"
    by simp_all
  from exec_keeps_key [OF c, of tr cm st] Cons.IH [OF rest, of "exec tr c (cm, st)"]
  show ?case by (simp add: cs)
qed

text \<open>
  Claim C3, as amended. After \<open>add_param_headers(k, v)\<close>, \<open>param_headers(k)\<close> returns \<open>v\<close>,
  and it still returns \<open>v\<close> after any sequence of calls on this connection manager that
  neither overwrites \<open>k\<close> (\<open>add_param_headers\<close>), nor removes it (\<open>del_param_headers\<close>,
  \<open>clean_headers\<close>), nor replaces the mapping through the \<open>headers\<close> setter.
\<close>

theorem added_header_stays:
  assumes "\<forall>c \<in> set ops. \<not> overwrites_or_removes k c \<and> \<not> replaces_mapping c"
  shows "param_headers (fst (run tr ops (add_param_headers cm st k v)))
           (snd (run tr ops (add_param_headers cm st k v))) k = v"
  using run_keeps_key [OF assms, of tr "add_param_headers cm st k v"]
  by (simp add: param_headers_def dict_get_def add_param_headers_simps)

theorem added_header_stays_witness:
  "param_headers
     (fst (run test_transport
        [AddParamHeaders ''Accept'' (PStr ''text/plain''), RawGet ''/v1/items'' [],
         DelParamHeaders ''Accept'', SetTimeout 5]
        (add_param_headers (init [] ''https://example.test'' None None None None)
           module_store ''X-Token'' (PStr ''abc''))))
     (snd (run test_transport
        [AddParamHeaders ''Accept'' (PStr ''text/plain''), RawGet ''/v1/items'' [],
         DelParamHeaders ''Accept'', SetTimeout 5]
        (add_param_headers (init [] ''https://example.test'' None None None None)
           module_store ''X-Token'' (PStr ''abc''))))
     ''X-Token'' = PStr ''abc''"
  by (rule added_header_stays) simp

text \<open>
  The claim as first stated leaves the \<open>headers\<close> setter out. With a second dictionary in
  the store, \<open>cm.headers = other\<close> is a call that neither overwrites nor removes
  \<open>X-Token\<close>, and after it \<open>param_headers("X-Token")\<close> is no longer the value added.
\<close>

theorem setter_drops_added_header:
  "\<not> overwrites_or_removes ''X-Token'' (SetHeaders 1)
   \<and> param_headers
       (fst (run test_transport [SetHeaders 1]
          (add_param_headers (init [] ''https://example.test'' None None None None)
             (snd (new_dict module_store)) ''X-Token'' (PStr ''abc''))))
       (snd (run test_transport [SetHeaders 1]
          (add_param_headers (init [] ''https://example.test'' None None None None)
             (snd (new_dict module_store)) ''X-Token'' (PStr ''abc''))))
       ''X-Token'' \<noteq> PStr ''abc''"
  by (simp add: add_param_headers_def init_def new_dict_def module_store_def default_headers_def
        set_headers_def param_headers_def dict_get_def dict_setitem_def)

section \<open>The default header mapping\<close>

text \<open>
  Claim C4 asks that two connection managers constructed without a \<open>headers\<close> argument
  have separate mappings. In the code they hold the same dictionary, the one default
  object of \<open>__init__\<close>: the \<open>headers\<close> fields are equal, and after \<open>a\<close> adds the header
  \<open>X\<close>, \<open>b.param_headers("X")\<close> changes from \<open>None\<close> to the value \<open>a\<close> added and
  \<open>b.exist_param_headers("X")\<close> becomes true.
\<close>

theorem default_headers_shared:
  "headers (init ta ua None toa va pa) = headers (init tb ub None tob vb pb)
   \<and> param_headers (init [] ''http://b/'' None None None None :: request list connection_manager)
        module_store ''X'' = PNone
   \<and> param_headers (init [] ''http://b/'' None None None None :: request list connection_manager)
        (snd (add_param_headers
               (init [] ''http://a/'' None None None None :: request list connection_manager)
               module_store ''X'' (PStr ''1''))) ''X'' = PStr ''1''
   \<and> exist_param_headers (init [] ''http://b/'' None None None None :: request list connection_manager)
        (snd (add_param_headers
               (init [] ''http://a/'' None None None None :: request list connection_manager)
               module_store ''X'' (PStr ''1''))) ''X''"
  by (simp add: init_simps add_param_headers_simps param_headers_def exist_param_headers_def
        dict_get_def module_store_def)

section \<open>The headers field and the dictionary behind it\<close>

lemma exec_valid:
  assumes "headers cm < next_addr st"
    and "case c of SetHeaders a \<Rightarrow> a < next_addr st | _ \<Rightarrow> True"
  shows "headers (fst (exec tr c (cm, st))) < next_addr (snd (exec tr c (cm, st)))"
  using assms
  by (cases c)
     (simp_all add: set_base_url_def set_timeout_def set_verify_def set_headers_def
        clean_headers_simps add_param_headers_simps del_param_headers_eq
        raw_get_def raw_post_def raw_put_def raw_delete_def try_call_simps)

lemma run_valid:
  assumes "headers (fst cs) < next_addr (snd cs)" and "setter_args_allocated tr ops cs"
  shows "headers (fst (run tr ops cs)) < next_addr (snd (run tr ops cs))"
  using assms
proof (induction ops arbitrary: cs)
  case Nil
  then show ?case by simp
next
  case (Cons c ops)
  obtain cm st where cs: "cs = (cm, st)" by (cases cs)
  from Cons.prems(2) have arg: "case c of SetHeaders a \<Rightarrow> a < next_addr st | _ \<Rightarrow> True"
    and rest: "setter_args_allocated tr ops (exec tr c (cm, st))"
    by (cases c; simp add: cs)+
  from Cons.prems(1) have "headers cm < next_addr st" by (simp add: cs)
  from exec_valid [OF this arg]
  have "headers (fst (exec tr c (cm, st))) < next_addr (snd (exec tr c (cm, st)))" .
  from Cons.IH [OF this rest] show ?case by (simp add: cs)
qed

text \<open>
  Claim C5, as amended. When the constructor and the \<open>headers\<close> setter are given
  dictionaries, the \<open>headers\<close> field refers to an existing dictionary in every state a
  sequence of calls reaches. \<open>add_param_headers\<close> and \<open>del_param_headers\<close> change that
  dictionary in place: the field keeps its value, no dictionary is created, and the
  dictionary it refers to has the key set or removed. \<open>clean_headers\<close> does not work in
  place: it binds the field to a newly created empty dictionary, different from the one
  before, and leaves every dictionary that existed as it was.
\<close>

theorem headers_field_stays_valid:
  assumes "headers cm < next_addr st" and "setter_args_allocated tr ops (cm, st)"
  shows "headers (fst (run tr ops (cm, st))) < next_addr (snd (run tr ops (cm, st)))
     \<and> headers (fst (add_param_headers cm st k v)) = headers cm
     \<and> next_addr (snd (add_param_headers cm st k v)) = next_addr st
     \<and> cells (snd (add_param_headers cm st k v)) (headers cm) = (cells st (headers cm))(k \<mapsto> v)
     \<and> (\<exists>cm' st'. del_param_headers cm st k = Inr (cm', st') \<and> headers cm' = headers cm
            \<and> next_addr st' = next_addr st
            \<and> cells st' (headers cm) = (cells st (headers cm))(k := None))
     \<and> headers (fst (clean_headers cm st)) = next_addr st
     \<and> headers (fst (clean_headers cm st)) \<noteq> headers cm
     \<and> cells (snd (clean_headers cm st)) (headers (fst (clean_headers cm st))) = Map.empty
     \<and> (\<forall>a. a < next_addr st \<longrightarrow> cells (snd (clean_headers cm st)) a = cells st a)"
  using assms(1) run_valid [of "(cm, st)" tr ops] assms(2)
  by (simp add: add_param_headers_simps del_param_headers_eq clean_headers_simps)

theorem headers_field_stays_valid_witness:
  "headers (fst (run test_transport
       [AddParamHeaders ''X'' (PStr ''1''), CleanHeaders, SetHeaders 0, RawGet ''/a'' []]
       (init [] ''http://host/'' None None None None, module_store)))
     < next_addr (snd (run test_transport
       [AddParamHeaders ''X'' (PStr ''1''), CleanHeaders, SetHeaders 0, RawGet ''/a'' []]
       (init [] ''http://host/'' None None None None, module_store)))
   \<and> headers (fst (clean_headers
         (init [] ''http://host/'' None None None None :: request list connection_manager)
         module_store))
       \<noteq> headers (init [] ''http://host/'' None None None None :: request list connection_manager)"
proof -
  let ?cm = "init [] ''http://host/'' None None None None :: request list connection_manager"
  let ?ops = "[AddParamHeaders ''X'' (PStr ''1''), CleanHeaders, SetHeaders 0, RawGet ''/a'' []]"
  have h1: "headers ?cm < next_addr module_store"
    by (simp add: init_simps default_headers_def module_store_def)
  have h2: "setter_args_allocated test_transport ?ops (?cm, module_store)"
    by (simp add: module_store_def add_param_headers_def clean_headers_def new_dict_def
          set_headers_def)
  from headers_field_stays_valid [OF h1 h2, of "''X''" "PStr ''1''"] show ?thesis
    by blast
qed

text \<open>
  The claim as first stated has \<open>clean_headers\<close> work on the same dictionary in place.
  After \<open>add_param_headers("X", "1")\<close> and \<open>clean_headers()\<close> on a connection manager
  with the default mapping, the \<open>headers\<close> field refers to another dictionary than
  before, and the dictionary it referred to still has the key \<open>X\<close>.
\<close>

theorem clean_headers_rebinds:
  "headers (fst (clean_headers
       (init [] ''http://host/'' None None None None :: request list connection_manager)
       (snd (add_param_headers
          (init [] ''http://host/'' None None None None :: request list connection_manager)
          module_store ''X'' (PStr ''1'')))))
     \<noteq> headers (init [] ''http://host/'' None None None None :: request list connection_manager)
   \<and> cells (snd (clean_headers
       (init [] ''http://host/'' None None None None :: request list connection_manager)
       (snd (add_param_headers
          (init [] ''http://host/'' None None None None :: request list connection_manager)
          module_store ''X'' (PStr ''1'')))))
       (headers (init [] ''http://host/'' None None None None :: request list connection_manager))
       ''X'' = Some (PStr ''1'')"
  by (simp add: init_simps default_headers_def module_store_def add_param_headers_simps
        clean_headers_simps)

section \<open>Failures of the transport\<close>

text \<open>
  Claim C2, as amended. Each of \<open>raw_get\<close>, \<open>raw_post\<close>, \<open>raw_put\<close> and \<open>raw_delete\<close>
  calls the transport once, with one request. When that call raises an exception \<open>e\<close>
  that is an instance of \<open>Exception\<close>, of whatever class, the method raises an
  \<open>Exception\<close> with the message \<open>Can't connect to server (<str e>)\<close>; an exception that
  is not an instance of \<open>Exception\<close> leaves the method as it was raised. When the call
  returns a response, of whatever status code, the method returns that response. The
  session afterwards is the one the single call left.
\<close>

theorem transport_failure_wrapped:
  fixes tr :: "'t transport" and cm :: "'t connection_manager" and st :: store
    and p :: string and kw :: "(string \<times> pyval) list" and d :: pydata
  defines "wrapped \<equiv> \<lambda>e. if is_Exception e
             then PyExn ''Exception'' True (''Can't connect to server ('' @ exn_str e @ '')'')
             else e"
    and "rq \<equiv> \<lambda>m dat. \<lparr>req_method = m, req_url = urljoin (base_url cm) p, req_params = kw,
            req_data = dat, req_headers = cells st (headers cm), req_timeout = timeout cm,
            req_verify = verify cm\<rparr>"
  shows "(case tr (s cm) (rq ''GET'' None) of
            (Inl e, s') \<Rightarrow> raw_get tr cm st p kw = (Inl (wrapped e), cm\<lparr>s := s'\<rparr>)
          | (Inr r, s') \<Rightarrow> raw_get tr cm st p kw = (Inr r, cm\<lparr>s := s'\<rparr>))
       \<and> (case tr (s cm) (rq ''POST'' (Some d)) of
            (Inl e, s') \<Rightarrow> raw_post tr cm st p d kw = (Inl (wrapped e), cm\<lparr>s := s'\<rparr>)
          | (Inr r, s') \<Rightarrow> raw_post tr cm st p d kw = (Inr r, cm\<lparr>s := s'\<rparr>))
       \<and> (case tr (s cm) (rq ''PUT'' (Some d)) of
            (Inl e, s') \<Rightarrow> raw_put tr cm st p d kw = (Inl (wrapped e), cm\<lparr>s := s'\<rparr>)
          | (Inr r, s') \<Rightarrow> raw_put tr cm st p d kw = (Inr r, cm\<lparr>s := s'\<rparr>))
       \<and> (case tr (s cm) (rq ''DELETE'' (Some (data_or_dict d))) of
            (Inl e, s') \<Rightarrow> raw_delete tr cm st p d kw = (Inl (wrapped e), cm\<lparr>s := s'\<rparr>)
          | (Inr r, s') \<Rightarrow> raw_delete tr cm st p d kw = (Inr r, cm\<lparr>s := s'\<rparr>))"
  unfolding wrapped_def rq_def
  by (simp add: raw_get_def raw_post_def raw_put_def raw_delete_def try_call_def
        split: prod.splits sum.splits)

theorem transport_failure_wrapped_witness:
  "fst (raw_get test_transport (init [] ''http://unreachable/api/'' None None None None)
          module_store ''/x'' [])
     = Inl (PyExn ''Exception'' True ''Can't connect to server (Name or service not known)'')
   \<and> transport_state (s (snd (raw_get test_transport
          (init [] ''http://unreachable/api/'' None None None None) module_store ''/x'' [])))
     = [\<lparr>req_method = ''GET'', req_url = ''http://unreachable/x'', req_params = [],
         req_data = None, req_headers = Map.empty, req_timeout = 60,
         req_verify = VBool True\<rparr>]"
proof -
  let ?cm = "init [] ''http://unreachable/api/'' None None None None :: request list connection_manager"
  let ?rq = "\<lparr>req_method = ''GET'', req_url = urljoin (base_url ?cm) ''/x'', req_params = [],
       req_data = None, req_headers = cells module_store (headers ?cm),
       req_timeout = timeout ?cm, req_verify = verify ?cm\<rparr>"
  have u: "urljoin ''http://unreachable/api/'' ''/x'' = ''http://unreachable/x''"
    by code_simp
  have n: "netloc (urlsplit ''http://unreachable/x'' []) = ''unreachable''"
    by code_simp
  have out: "test_transport (s ?cm) ?rq =
      (Inl (PyExn ''ConnectionError'' True ''Name or service not known''),
       (s ?cm)\<lparr>transport_state := [?rq]\<rparr>)"
    by (simp add: test_transport_def init_simps u n init_def new_session_def)
  from transport_failure_wrapped [of test_transport ?cm module_store "''/x''" "[]"]
  have "raw_get test_transport ?cm module_store ''/x'' [] =
      (Inl (PyExn ''Exception'' True ''Can't connect to server (Name or service not known)''),
       ?cm\<lparr>s := (s ?cm)\<lparr>transport_state := [?rq]\<rparr>\<rparr>)"
    unfolding out by simp
  then show ?thesis
    by (simp add: init_simps u default_headers_def module_store_def)
qed

text \<open>
  The claim as first stated has every exception of the transport call turned into the
  generic error. A \<open>KeyboardInterrupt\<close> raised during the call is not an \<open>Exception\<close>:
  \<open>raw_get\<close> raises it as it is, and not the generic error.
\<close>

theorem keyboard_interrupt_not_wrapped:
  "fst (raw_get interrupted_transport (init [] ''http://host/api/'' None None None None)
          module_store ''/x'' [])
     = Inl (PyExn ''KeyboardInterrupt'' False [])
   \<and> fst (raw_get interrupted_transport (init [] ''http://host/api/'' None None None None)
          module_store ''/x'' [])
     \<noteq> Inl (PyExn ''Exception'' True ''Can't connect to server ()'')"
  by (simp add: raw_get_def try_call_def interrupted_transport_def)

section \<open>The target URL of a request\<close>

lemma split_on_nonempty: "split_on c xs \<noteq> []"
  by (induction xs) (auto split: list.splits)

lemma join_split_on: "join_with [c] (split_on c xs) = xs"
proof (induction xs)
  case Nil
  show ?case by simp
next
  case (Cons x xs)
  obtain w ws where sp: "split_on c xs = w # ws"
    using split_on_nonempty [of c xs] by (cases "split_on c xs") auto
  show ?case
  proof (cases "x = c")
    case True
    with Cons sp show ?thesis by simp
  next
    case False
    with Cons sp show ?thesis by (cases ws) simp_all
  qed
qed

lemma resolve_segments_no_dots:
  "''.'' \<notin> set segs \<Longrightarrow> ''..'' \<notin> set segs \<Longrightarrow> resolve_segments acc segs = acc @ segs"
  by (induction segs arbitrary: acc) auto

lemma split_scheme_slash: "split_scheme (CHR ''/'' # r) dflt = (dflt, CHR ''/'' # r)"
  by (simp add: split_scheme_def ascii_letters_def)

lemma urlsplit_slash:
  assumes "take 1 r \<noteq> ''/''"
  shows "scheme (urlsplit (CHR ''/'' # r) dflt) = dflt"
    and "netloc (urlsplit (CHR ''/'' # r) dflt) = []"
    and "path (urlsplit (CHR ''/'' # r) dflt) \<noteq> []"
    and "take 1 (path (urlsplit (CHR ''/'' # r) dflt)) = ''/''"
  using assms
  by (cases r; simp add: urlsplit_def split_scheme_slash Let_def)+

lemma urlsplit_slash_plain:
  assumes "take 1 r \<noteq> ''/''" and "CHR ''#'' \<notin> set r" and "CHR ''?'' \<notin> set r"
  shows "urlsplit (CHR ''/'' # r) dflt =
           \<lparr>scheme = dflt, netloc = [], path = CHR ''/'' # r, query = [], fragment = []\<rparr>"
proof -
  have "takeWhile (\<lambda>c. c \<noteq> CHR ''#'') r = r" "takeWhile (\<lambda>c. c \<noteq> CHR ''?'') r = r"
    using assms(2,3) by (auto simp: takeWhile_eq_all_conv)
  with assms(1) show ?thesis
    by (cases r) (simp_all add: urlsplit_def split_scheme_slash Let_def)
qed

lemma urljoin_slash_indep:
  assumes "b1 \<noteq> []" and "b2 \<noteq> []"
    and "scheme (urlsplit b1 []) = scheme (urlsplit b2 [])"
    and "netloc (urlsplit b1 []) = netloc (urlsplit b2 [])"
    and "take 1 r \<noteq> ''/''"
  shows "urljoin b1 (CHR ''/'' # r) = urljoin b2 (CHR ''/'' # r)"
  using assms(1-4) urlsplit_slash [OF assms(5)]
  by (simp add: urljoin_def Let_def)

lemma urljoin_other_scheme:
  assumes "b \<noteq> []" and "q \<noteq> []"
    and "scheme (urlsplit q (scheme (urlsplit b []))) \<noteq> scheme (urlsplit b [])"
  shows "urljoin b q = q"
  using assms by (simp add: urljoin_def Let_def)

lemma urljoin_no_relative_scheme:
  assumes "b \<noteq> []" and "q \<noteq> []" and "scheme (urlsplit b []) \<notin> set uses_relative"
  shows "urljoin b q = q"
  using assms by (simp add: urljoin_def Let_def)

lemma urljoin_slash_plain:
  assumes "b \<noteq> []"
    and "scheme (urlsplit b []) = sch" and "netloc (urlsplit b []) = nl"
    and "sch \<in> set uses_relative" and "sch \<in> set uses_netloc" and "sch \<noteq> []" and "nl \<noteq> []"
    and "take 1 r \<noteq> ''/''" and "CHR ''#'' \<notin> set r" and "CHR ''?'' \<notin> set r"
    and "''.'' \<notin> set (split_on CHR ''/'' (CHR ''/'' # r))"
    and "''..'' \<notin> set (split_on CHR ''/'' (CHR ''/'' # r))"
  shows "urljoin b (CHR ''/'' # r) = sch @ ''://'' @ nl @ CHR ''/'' # r"
proof -
  let ?p = "CHR ''/'' # r"
  let ?segs = "split_on CHR ''/'' ?p"
  have u: "urlsplit ?p sch =
      \<lparr>scheme = sch, netloc = [], path = ?p, query = [], fragment = []\<rparr>"
    using assms(8-10) by (rule urlsplit_slash_plain)
  have res: "resolve_segments [] ?segs = ?segs"
    using resolve_segments_no_dots [OF assms(11,12), of "[]"] by simp
  have lst: "last ?segs \<noteq> ''.''" "last ?segs \<noteq> ''..''"
    using assms(11,12) last_in_set [OF split_on_nonempty, of "CHR ''/''" ?p] by metis+
  have jn: "join_with ''/'' ?segs = ?p"
    by (rule join_split_on)
  show ?thesis
    unfolding urljoin_def Let_def assms(2,3) u
    using assms(1,4,5,6,7) res lst jn
    by (simp add: urlunsplit_def Let_def del: split_on.simps)
qed

lemma uses_relative_netloc: "x \<in> set uses_relative \<Longrightarrow> x \<in> set uses_netloc"
  by (auto simp: uses_relative_def uses_netloc_def)

lemma take1_slash_nonempty: "take 1 xs = ''/'' \<Longrightarrow> xs \<noteq> []"
  by auto

lemma urljoin_base_path_unused:
  assumes "b1 \<noteq> []" and "b2 \<noteq> []" and "q \<noteq> []"
    and "scheme (urlsplit b1 []) = scheme (urlsplit b2 [])"
    and "netloc (urlsplit b1 []) = netloc (urlsplit b2 [])"
    and "scheme (urlsplit q (scheme (urlsplit b1 []))) \<noteq> scheme (urlsplit b1 [])
         \<or> netloc (urlsplit q (scheme (urlsplit b1 []))) \<noteq> []
         \<or> take 1 (path (urlsplit q (scheme (urlsplit b1 [])))) = ''/''"
  shows "urljoin b1 q = urljoin b2 q"
proof -
  let ?u = "urlsplit q (scheme (urlsplit b2 []))"
  from assms(4,6) consider "scheme ?u \<noteq> scheme (urlsplit b2 [])"
    | "scheme ?u = scheme (urlsplit b2 [])" "scheme ?u \<notin> set uses_relative"
    | "scheme ?u = scheme (urlsplit b2 [])" "scheme ?u \<in> set uses_relative" "netloc ?u \<noteq> []"
    | "scheme ?u = scheme (urlsplit b2 [])" "scheme ?u \<in> set uses_relative" "netloc ?u = []"
      "take 1 (path ?u) = ''/''"
    by auto
  then show ?thesis
  proof cases
    case 1
    with assms(1-4) show ?thesis by (simp add: urljoin_def Let_def)
  next
    case 2
    with assms(1-4) show ?thesis by (simp add: urljoin_def Let_def)
  next
    case 3
    from 3(2) have "scheme ?u \<in> set uses_netloc" by (rule uses_relative_netloc)
    with 3 assms(1-4) show ?thesis by (simp add: urljoin_def Let_def)
  next
    case 4
    from 4(4) have "path ?u \<noteq> []" by (rule take1_slash_nonempty)
    with 4 assms(1-5) show ?thesis by (simp add: urljoin_def Let_def)
  qed
qed

lemma urlsplit_after_scheme:
  assumes "split_scheme q d = (sch, rest)" and "take 1 rest = ''/''"
  shows "urlsplit q d = urlsplit rest sch"
proof -
  from assms(2) obtain r where "rest = CHR ''/'' # r" by (cases rest) auto
  then have "split_scheme rest sch = (sch, rest)" by (simp add: split_scheme_slash)
  with assms(1) show ?thesis by (simp add: urlsplit_def)
qed

lemma urlsplit_slash_host_or_path:
  assumes "take 1 rest = ''/''" and "rest \<noteq> ''//''"
    and "take 3 rest \<noteq> ''//?''" and "take 3 rest \<noteq> ''//#''"
  shows "scheme (urlsplit rest sch) = sch
         \<and> (netloc (urlsplit rest sch) \<noteq> [] \<or> take 1 (path (urlsplit rest sch)) = ''/'')"
proof -
  from assms(1) obtain r where rest: "rest = CHR ''/'' # r" by (cases rest) auto
  show ?thesis
  proof (cases "take 1 r = ''/''")
    case False
    then show ?thesis
      by (cases r) (simp_all add: rest urlsplit_def split_scheme_slash Let_def)
  next
    case True
    then obtain r2 where r: "r = CHR ''/'' # r2" by (cases r) auto
    from assms(2-4) obtain c r3 where r2: "r2 = c # r3" and c: "c \<noteq> CHR ''?''" "c \<noteq> CHR ''#''"
      by (cases r2) (auto simp: rest r)
    show ?thesis
      by (cases "c = CHR ''/''") (simp_all add: rest r r2 c urlsplit_def split_scheme_slash Let_def)
  qed
qed

lemma urljoin_absolute_ref:
  assumes "b1 \<noteq> []" and "b2 \<noteq> []"
    and "scheme (urlsplit b1 []) = scheme (urlsplit b2 [])"
    and "netloc (urlsplit b1 []) = netloc (urlsplit b2 [])"
    and "split_scheme q (scheme (urlsplit b1 [])) = (sch, rest)"
    and "take 1 rest = ''/''" and "rest \<noteq> ''//''"
    and "take 3 rest \<noteq> ''//?''" and "take 3 rest \<noteq> ''//#''"
  shows "urljoin b1 q = urljoin b2 q"
proof -
  have q: "q \<noteq> []"
    using assms(5,6) by (auto simp: split_scheme_def)
  have u: "urlsplit q (scheme (urlsplit b1 [])) = urlsplit rest sch"
    using assms(5,6) by (rule urlsplit_after_scheme)
  from urlsplit_slash_host_or_path [OF assms(6-9), of sch]
  have "netloc (urlsplit rest sch) \<noteq> [] \<or> take 1 (path (urlsplit rest sch)) = ''/''"
    by simp
  with u have "scheme (urlsplit q (scheme (urlsplit b1 []))) \<noteq> scheme (urlsplit b1 [])
         \<or> netloc (urlsplit q (scheme (urlsplit b1 []))) \<noteq> []
         \<or> take 1 (path (urlsplit q (scheme (urlsplit b1 [])))) = ''/''"
    by simp
  with assms(1,2) q assms(3,4) show ?thesis
    by (rule urljoin_base_path_unused)
qed

lemma urljoin_with_host:
  assumes "b \<noteq> []" and "q \<noteq> []"
    and "netloc (urlsplit q (scheme (urlsplit b []))) \<noteq> []"
  shows "urljoin b q =
     (if scheme (urlsplit q (scheme (urlsplit b []))) = scheme (urlsplit b [])
         \<and> scheme (urlsplit b []) \<in> set uses_relative
      then urlunsplit (urlsplit q (scheme (urlsplit b [])))
      else q)"
  using assms uses_relative_netloc [of "scheme (urlsplit b [])"]
  by (auto simp: urljoin_def Let_def)

text \<open>
  Claim C1, as amended. Every \<open>raw_*\<close> method hands the session one request whose URL is
  \<open>urljoin(base_url, path)\<close>. For the base \<open>http://host/api/\<close> the path \<open>/foo\<close> gives
  \<open>http://host/foo\<close> and the path \<open>/bar\<close> gives \<open>http://host/bar\<close>; it is the relative
  path \<open>foo\<close> that gives \<open>http://host/api/foo\<close>. In general a path that starts with \<open>/\<close>
  or with a scheme replaces the base's path entirely: when what follows the scheme (the
  whole path, when it has none) starts with \<open>/\<close>, the target is the same for all bases
  of one scheme and host; a path with a scheme other than the base's, or any path when
  the base's scheme takes no relative references, is the target as it is; a path with a
  host of its own takes nothing but the scheme from the base. The forms left out name no
  host and no path from the root: the base's own scheme followed by a relative or empty
  path (\<open>http:foo\<close>), and \<open>//\<close> followed by nothing, a query or a fragment, which are
  resolved against the base's path.
\<close>

theorem raw_requests_go_to_urljoin:
  fixes tr :: "'t transport" and cm :: "'t connection_manager" and st :: store
    and p :: string and kw :: "(string \<times> pyval) list" and d :: pydata
    and b b' b'' b1 b2 b3 b4 b5 q q' q'' q5 sch rest r r' :: string
  defines "rq \<equiv> \<lambda>m dat. \<lparr>req_method = m, req_url = urljoin (base_url cm) p, req_params = kw,
            req_data = dat, req_headers = cells st (headers cm), req_timeout = timeout cm,
            req_verify = verify cm\<rparr>"
  shows "raw_get tr cm st p kw = try_call cm (tr (s cm) (rq ''GET'' None))
       \<and> raw_post tr cm st p d kw = try_call cm (tr (s cm) (rq ''POST'' (Some d)))
       \<and> raw_put tr cm st p d kw = try_call cm (tr (s cm) (rq ''PUT'' (Some d)))
       \<and> raw_delete tr cm st p d kw
           = try_call cm (tr (s cm) (rq ''DELETE'' (Some (data_or_dict d))))
       \<and> urljoin ''http://host/api/'' ''/foo'' = ''http://host/foo''
       \<and> urljoin ''http://host/api/'' ''/bar'' = ''http://host/bar''
       \<and> urljoin ''http://host/api/'' ''foo'' = ''http://host/api/foo''
       \<and> urljoin ''http://host/api/'' ''http://other/x'' = ''http://other/x''
       \<and> urljoin ''http://host/api/'' ''//other/x'' = ''http://other/x''
       \<and> urljoin ''http://host/api/'' ''http:/foo'' = ''http://host/foo''
       \<and> urljoin ''http://host/api/'' ''http:foo'' = ''http://host/api/foo''
       \<and> urljoin ''http://host/api/'' ''//'' = ''http://host/api/''
       \<and> (b1 \<noteq> [] \<and> b2 \<noteq> [] \<and> scheme (urlsplit b1 []) = scheme (urlsplit b2 [])
            \<and> netloc (urlsplit b1 []) = netloc (urlsplit b2 [])
            \<and> split_scheme q (scheme (urlsplit b1 [])) = (sch, rest)
            \<and> take 1 rest = ''/'' \<and> rest \<noteq> ''//''
            \<and> take 3 rest \<noteq> ''//?'' \<and> take 3 rest \<noteq> ''//#''
          \<longrightarrow> urljoin b1 q = urljoin b2 q)
       \<and> (b3 \<noteq> [] \<and> b4 \<noteq> [] \<and> scheme (urlsplit b3 []) = scheme (urlsplit b4 [])
            \<and> netloc (urlsplit b3 []) = netloc (urlsplit b4 []) \<and> take 1 r \<noteq> ''/''
          \<longrightarrow> urljoin b3 (CHR ''/'' # r) = urljoin b4 (CHR ''/'' # r))
       \<and> (b \<noteq> [] \<and> scheme (urlsplit b []) \<in> set uses_relative
            \<and> scheme (urlsplit b []) \<in> set uses_netloc \<and> scheme (urlsplit b []) \<noteq> []
            \<and> netloc (urlsplit b []) \<noteq> [] \<and> take 1 r' \<noteq> ''/''
            \<and> CHR ''#'' \<notin> set r' \<and> CHR ''?'' \<notin> set r'
            \<and> ''.'' \<notin> set (split_on CHR ''/'' (CHR ''/'' # r'))
            \<and> ''..'' \<notin> set (split_on CHR ''/'' (CHR ''/'' # r'))
          \<longrightarrow> urljoin b (CHR ''/'' # r')
                = scheme (urlsplit b []) @ ''://'' @ netloc (urlsplit b []) @ CHR ''/'' # r')
       \<and> (b' \<noteq> [] \<and> q' \<noteq> [] \<and> netloc (urlsplit q' (scheme (urlsplit b' []))) \<noteq> []
          \<longrightarrow> urljoin b' q'
                = (if scheme (urlsplit q' (scheme (urlsplit b' []))) = scheme (urlsplit b' [])
                      \<and> scheme (urlsplit b' []) \<in> set uses_relative
                   then urlunsplit (urlsplit q' (scheme (urlsplit b' [])))
                   else q'))
       \<and> (b'' \<noteq> [] \<and> q'' \<noteq> []
            \<and> scheme (urlsplit q'' (scheme (urlsplit b'' []))) \<noteq> scheme (urlsplit b'' [])
          \<longrightarrow> urljoin b'' q'' = q'')
       \<and> (b5 \<noteq> [] \<and> q5 \<noteq> [] \<and> scheme (urlsplit b5 []) \<notin> set uses_relative
          \<longrightarrow> urljoin b5 q5 = q5)"
proof -
  have calls: "raw_get tr cm st p kw = try_call cm (tr (s cm) (rq ''GET'' None))"
    "raw_post tr cm st p d kw = try_call cm (tr (s cm) (rq ''POST'' (Some d)))"
    "raw_put tr cm st p d kw = try_call cm (tr (s cm) (rq ''PUT'' (Some d)))"
    "raw_delete tr cm st p d kw = try_call cm (tr (s cm) (rq ''DELETE'' (Some (data_or_dict d))))"
    by (simp_all add: rq_def raw_get_def raw_post_def raw_put_def raw_delete_def)
  have ex: "urljoin ''http://host/api/'' ''/foo'' = ''http://host/foo''"
    "urljoin ''http://host/api/'' ''/bar'' = ''http://host/bar''"
    "urljoin ''http://host/api/'' ''foo'' = ''http://host/api/foo''"
    "urljoin ''http://host/api/'' ''http://other/x'' = ''http://other/x''"
    "urljoin ''http://host/api/'' ''//other/x'' = ''http://other/x''"
    "urljoin ''http://host/api/'' ''http:/foo'' = ''http://host/foo''"
    "urljoin ''http://host/api/'' ''http:foo'' = ''http://host/api/foo''"
    "urljoin ''http://host/api/'' ''//'' = ''http://host/api/''"
    by code_simp+
  have gen: "b1 \<noteq> [] \<and> b2 \<noteq> [] \<and> scheme (urlsplit b1 []) = scheme (urlsplit b2 [])
            \<and> netloc (urlsplit b1 []) = netloc (urlsplit b2 [])
            \<and> split_scheme q (scheme (urlsplit b1 [])) = (sch, rest)
            \<and> take 1 rest = ''/'' \<and> rest \<noteq> ''//''
            \<and> take 3 rest \<noteq> ''//?'' \<and> take 3 rest \<noteq> ''//#''
          \<longrightarrow> urljoin b1 q = urljoin b2 q"
    using urljoin_absolute_ref [of b1 b2 q sch rest] by blast
  have host: "b' \<noteq> [] \<and> q' \<noteq> [] \<and> netloc (urlsplit q' (scheme (urlsplit b' []))) \<noteq> []
          \<longrightarrow> urljoin b' q'
                = (if scheme (urlsplit q' (scheme (urlsplit b' []))) = scheme (urlsplit b' [])
                      \<and> scheme (urlsplit b' []) \<in> set uses_relative
                   then urlunsplit (urlsplit q' (scheme (urlsplit b' [])))
                   else q')"
    using urljoin_with_host [of b' q'] by blast
  show ?thesis
    using calls ex gen host urljoin_slash_indep [of b3 b4 r] urljoin_slash_plain [of b _ _ r']
      urljoin_other_scheme [of b'' q''] urljoin_no_relative_scheme [of b5 q5]
    by blast
qed

theorem raw_requests_go_to_urljoin_witness:
  "urljoin ''http://host/other/x?y=1'' ''/bar'' = ''http://host/bar''
   \<and> urljoin ''http://host/other/x?y=1'' ''http://other/x'' = ''http://other/x''
   \<and> urljoin ''https://example.test'' ''/v1/items'' = ''https://example.test/v1/items''
   \<and> urljoin ''http://host/api/'' ''//cdn.test/lib.js?v=2'' = ''http://cdn.test/lib.js?v=2''
   \<and> urljoin ''http://host/api/'' ''mailto:root@host'' = ''mailto:root@host''
   \<and> urljoin ''mailto:admin@host'' ''mailto:root@host'' = ''mailto:root@host''"
proof -
  have h0: "''http://host/api/'' \<noteq> [] \<and> ''http://host/other/x?y=1'' \<noteq> []
      \<and> scheme (urlsplit ''http://host/api/'' []) = scheme (urlsplit ''http://host/other/x?y=1'' [])
      \<and> netloc (urlsplit ''http://host/api/'' []) = netloc (urlsplit ''http://host/other/x?y=1'' [])
      \<and> split_scheme ''http://other/x'' (scheme (urlsplit ''http://host/api/'' []))
          = (''http'', ''//other/x'')
      \<and> take 1 ''//other/x'' = ''/'' \<and> ''//other/x'' \<noteq> ''//''
      \<and> take 3 ''//other/x'' \<noteq> ''//?'' \<and> take 3 ''//other/x'' \<noteq> ''//#''"
    by code_simp
  have h1: "''http://host/api/'' \<noteq> [] \<and> ''http://host/other/x?y=1'' \<noteq> []
      \<and> scheme (urlsplit ''http://host/api/'' []) = scheme (urlsplit ''http://host/other/x?y=1'' [])
      \<and> netloc (urlsplit ''http://host/api/'' []) = netloc (urlsplit ''http://host/other/x?y=1'' [])
      \<and> take 1 ''bar'' \<noteq> ''/''"
    by code_simp
  have s2: "scheme (urlsplit ''https://example.test'' []) = ''https''"
    and n2: "netloc (urlsplit ''https://example.test'' []) = ''example.test''"
    by code_simp+
  have h2: "''https://example.test'' \<noteq> []
      \<and> scheme (urlsplit ''https://example.test'' []) \<in> set uses_relative
      \<and> scheme (urlsplit ''https://example.test'' []) \<in> set uses_netloc
      \<and> scheme (urlsplit ''https://example.test'' []) \<noteq> []
      \<and> netloc (urlsplit ''https://example.test'' []) \<noteq> [] \<and> take 1 ''v1/items'' \<noteq> ''/''
      \<and> CHR ''#'' \<notin> set ''v1/items'' \<and> CHR ''?'' \<notin> set ''v1/items''
      \<and> ''.'' \<notin> set (split_on CHR ''/'' (CHR ''/'' # ''v1/items''))
      \<and> ''..'' \<notin> set (split_on CHR ''/'' (CHR ''/'' # ''v1/items''))"
    unfolding s2 n2 by (simp add: uses_relative_def uses_netloc_def)
  have h3: "''http://host/api/'' \<noteq> [] \<and> ''mailto:root@host'' \<noteq> []
      \<and> scheme (urlsplit ''mailto:root@host'' (scheme (urlsplit ''http://host/api/'' [])))
          \<noteq> scheme (urlsplit ''http://host/api/'' [])"
    by code_simp
  have h4: "''http://host/api/'' \<noteq> [] \<and> ''//cdn.test/lib.js?v=2'' \<noteq> []
      \<and> netloc (urlsplit ''//cdn.test/lib.js?v=2'' (scheme (urlsplit ''http://host/api/'' [])))
          \<noteq> []"
    by code_simp
  have h5: "''mailto:admin@host'' \<noteq> [] \<and> ''mailto:root@host'' \<noteq> []
      \<and> scheme (urlsplit ''mailto:admin@host'' []) \<notin> set uses_relative"
    by code_simp
  have e4: "(if scheme (urlsplit ''//cdn.test/lib.js?v=2'' (scheme (urlsplit ''http://host/api/'' [])))
                 = scheme (urlsplit ''http://host/api/'' [])
               \<and> scheme (urlsplit ''http://host/api/'' []) \<in> set uses_relative
             then urlunsplit (urlsplit ''//cdn.test/lib.js?v=2''
                                (scheme (urlsplit ''http://host/api/'' [])))
             else ''//cdn.test/lib.js?v=2'') = ''http://cdn.test/lib.js?v=2''"
    by code_simp
  note t = raw_requests_go_to_urljoin [where ?b1.0 = "''http://host/api/''"
      and ?b2.0 = "''http://host/other/x?y=1''" and q = "''http://other/x''"
      and sch = "''http''" and rest = "''//other/x''"
      and ?b3.0 = "''http://host/api/''" and ?b4.0 = "''http://host/other/x?y=1''"
      and r = "''bar''" and b = "''https://example.test''" and r' = "''v1/items''"
      and b' = "''http://host/api/''" and q' = "''//cdn.test/lib.js?v=2''"
      and b'' = "''http://host/api/''" and q'' = "''mailto:root@host''"
      and ?b5.0 = "''mailto:admin@host''" and ?q5.0 = "''mailto:root@host''",
      THEN conjunct2, THEN conjunct2, THEN conjunct2, THEN conjunct2]
  from t h1
  have "urljoin ''http://host/api/'' ''/bar'' = urljoin ''http://host/other/x?y=1'' ''/bar''"
    by blast
  moreover from t have "urljoin ''http://host/api/'' ''/bar'' = ''http://host/bar''"
    by blast
  ultimately have c1: "urljoin ''http://host/other/x?y=1'' ''/bar'' = ''http://host/bar''"
    by simp
  from t h0
  have "urljoin ''http://host/api/'' ''http://other/x''
          = urljoin ''http://host/other/x?y=1'' ''http://other/x''"
    by blast
  moreover from t have "urljoin ''http://host/api/'' ''http://other/x'' = ''http://other/x''"
    by blast
  ultimately have c2: "urljoin ''http://host/other/x?y=1'' ''http://other/x'' = ''http://other/x''"
    by simp
  from t h2 s2 n2
  have c3: "urljoin ''https://example.test'' ''/v1/items'' = ''https://example.test/v1/items''"
    by simp
  from t h4
  have "urljoin ''http://host/api/'' ''//cdn.test/lib.js?v=2''
      = (if scheme (urlsplit ''//cdn.test/lib.js?v=2'' (scheme (urlsplit ''http://host/api/'' [])))
                 = scheme (urlsplit ''http://host/api/'' [])
               \<and> scheme (urlsplit ''http://host/api/'' []) \<in> set uses_relative
             then urlunsplit (urlsplit ''//cdn.test/lib.js?v=2''
                                (scheme (urlsplit ''http://host/api/'' [])))
             else ''//cdn.test/lib.js?v=2'')"
    by blast
  with e4 have c4: "urljoin ''http://host/api/'' ''//cdn.test/lib.js?v=2''
      = ''http://cdn.test/lib.js?v=2''"
    by simp
  from t h3
  have c5: "urljoin ''http://host/api/'' ''mailto:root@host'' = ''mailto:root@host''"
    by blast
  from t h5
  have c6: "urljoin ''mailto:admin@host'' ''mailto:root@host'' = ''mailto:root@host''"
    by blast
  from c1 c2 c3 c4 c5 c6 show ?thesis
    by blast
qed

text \<open>
  The claim as first stated gives \<open>http://host/api/foo\<close> for the path \<open>/foo\<close>. The request
  \<open>raw_get("/foo")\<close> hands to the transport has the URL \<open>http://host/foo\<close>.
\<close>

theorem raw_get_slash_foo_target:
  "map req_url (transport_state (s (snd (raw_get test_transport
       (init [] ''http://host/api/'' None None None None) module_store ''/foo'' []))))
     = [''http://host/foo'']
   \<and> map req_url (transport_state (s (snd (raw_get test_transport
       (init [] ''http://host/api/'' None None None None) module_store ''/foo'' []))))
     \<noteq> [''http://host/api/foo'']"
  by code_simp

end
